theory Spec2Isabelle
  imports Complex_Main
begin

section \<open>Numbers, vectors and defaulted options\<close>

text \<open>
  JavaScript numbers are modelled as \<^typ>\<open>real\<close>: finite values with exact arithmetic.
  Rounding, the infinities and NaN are outside this model. Objects are identified by a
  reference (their identity), a natural number.
\<close>

type_synonym ref = nat

record vec3 =
  vx :: real
  vy :: real
  vz :: real

definition vec :: "real \<Rightarrow> real \<Rightarrow> real \<Rightarrow> vec3" where
  "vec a b c = \<lparr>vx = a, vy = b, vz = c\<rparr>"

text \<open>
  The vector operations of the graphics library that the controllers call
  (\<^verbatim>\<open>Vector3.length\<close>, \<^verbatim>\<open>normalize\<close>, \<^verbatim>\<open>subVectors\<close>, \<^verbatim>\<open>distanceTo\<close>,
  \<^verbatim>\<open>applyAxisAngle\<close>). The library is not part of the repository; the definitions follow
  its documented arithmetic. \<open>normalizeV\<close> (\<^verbatim>\<open>normalize\<close>) divides by \<^verbatim>\<open>length() || 1\<close>, and
  \<^verbatim>\<open>applyAxisAngle\<close> builds the quaternion of the axis and angle and applies it.
\<close>

definition vlength :: "vec3 \<Rightarrow> real" where
  "vlength v = sqrt (vx v * vx v + vy v * vy v + vz v * vz v)"

definition divideScalar :: "real \<Rightarrow> vec3 \<Rightarrow> vec3" where
  "divideScalar s v = \<lparr>vx = vx v / s, vy = vy v / s, vz = vz v / s\<rparr>"

definition normalizeV :: "vec3 \<Rightarrow> vec3" where
  "normalizeV v = divideScalar (if vlength v = 0 then 1 else vlength v) v"

definition subVectors :: "vec3 \<Rightarrow> vec3 \<Rightarrow> vec3" where
  "subVectors a b = \<lparr>vx = vx a - vx b, vy = vy a - vy b, vz = vz a - vz b\<rparr>"

definition distanceTo :: "vec3 \<Rightarrow> vec3 \<Rightarrow> real" where
  "distanceTo a b = vlength (subVectors a b)"

record quaternion =
  qx :: real
  qy :: real
  qz :: real
  qw :: real

definition setFromAxisAngle :: "vec3 \<Rightarrow> real \<Rightarrow> quaternion" where
  "setFromAxisAngle axis angle =
     (let halfAngle = angle / 2; s = sin halfAngle
      in \<lparr>qx = vx axis * s, qy = vy axis * s, qz = vz axis * s, qw = cos halfAngle\<rparr>)"

definition applyQuaternion :: "quaternion \<Rightarrow> vec3 \<Rightarrow> vec3" where
  "applyQuaternion q v =
     (let tx = 2 * (qy q * vz v - qz q * vy v);
          ty = 2 * (qz q * vx v - qx q * vz v);
          tz = 2 * (qx q * vy v - qy q * vx v)
      in \<lparr>vx = vx v + qw q * tx + qy q * tz - qz q * ty,
          vy = vy v + qw q * ty + qz q * tx - qx q * tz,
          vz = vz v + qw q * tz + qx q * ty - qy q * tx\<rparr>)"

definition applyAxisAngle :: "vec3 \<Rightarrow> real \<Rightarrow> vec3 \<Rightarrow> vec3" where
  "applyAxisAngle axis angle v = applyQuaternion (setFromAxisAngle axis angle) v"

text \<open>
  \<^verbatim>\<open>options.field || d\<close>: the default \<open>d\<close> is taken when the option is omitted
  (\<open>None\<close>) and also when it is the falsy number \<open>0\<close>.
\<close>

definition or_default :: "real option \<Rightarrow> real \<Rightarrow> real" where
  "or_default opt d = (case opt of None \<Rightarrow> d | Some v \<Rightarrow> if v = 0 then d else v)"

section \<open>Input (src/core/Input.js)\<close>

record input =
  keys :: "string \<rightharpoonup> bool"
  deltaX :: real
  deltaY :: real
  pointerLocked :: bool

definition isKeyDown :: "input \<Rightarrow> string \<Rightarrow> bool" where
  "isKeyDown inp keyCode = (case keys inp keyCode of None \<Rightarrow> False | Some b \<Rightarrow> b)"

text \<open>\<^verbatim>\<open>getMouseDelta\<close> returns the stored delta and resets it.\<close>

definition getMouseDelta :: "input \<Rightarrow> (real \<times> real) \<times> input" where
  "getMouseDelta inp = ((deltaX inp, deltaY inp), inp\<lparr>deltaX := 0, deltaY := 0\<rparr>)"

section \<open>Player (src/components/Player.js)\<close>

record player_options =
  o_speed :: "real option"
  o_jumpForce :: "real option"
  o_mouseSensitivity :: "real option"
  o_health :: "real option"

definition no_player_options :: player_options where
  "no_player_options =
     \<lparr>o_speed = None, o_jumpForce = None, o_mouseSensitivity = None, o_health = None\<rparr>"

text \<open>
  The fields of a Player. \<open>p_position\<close> is \<^verbatim>\<open>mesh.position\<close>, \<open>rotation_x\<close> and
  \<open>rotation_y\<close> are the pitch and yaw of \<^verbatim>\<open>rotation\<close>, \<open>p_input\<close> tells whether
  \<^verbatim>\<open>this.input\<close> has been set by \<^verbatim>\<open>init\<close>. The camera, the page text written by
  \<^verbatim>\<open>updateUI\<close> and the console are write-only sinks and are not part of the state.
\<close>

record player =
  p_speed :: real
  jumpForce :: real
  mouseSensitivity :: real
  health :: real
  score :: real
  p_position :: vec3
  velocity :: vec3
  onGround :: bool
  gravity :: real
  rotation_x :: real
  rotation_y :: real
  p_input :: bool

definition Player_new :: "player_options \<Rightarrow> player" where
  "Player_new options =
     \<lparr>p_speed = or_default (o_speed options) 5,
      jumpForce = or_default (o_jumpForce options) 10,
      mouseSensitivity = or_default (o_mouseSensitivity options) (2 / 1000),
      health = or_default (o_health options) 100,
      score = 0,
      p_position = vec 0 0 0,
      velocity = vec 0 0 0,
      onGround = False,
      gravity = - 20,
      rotation_x = 0,
      rotation_y = 0,
      p_input = False\<rparr>"

text \<open>
  \<^verbatim>\<open>init\<close> takes \<^verbatim>\<open>game.input\<close>; \<open>game_input\<close> tells whether the game has one.
\<close>

definition Player_init :: "bool \<Rightarrow> player \<Rightarrow> player" where
  "Player_init game_input p = p\<lparr>p_input := game_input, p_position := vec 0 1 0\<rparr>"

text \<open>The direction accumulated from the pressed movement keys (lines 97 to 103).\<close>

definition key_direction :: "input \<Rightarrow> vec3" where
  "key_direction inp =
     (let d0 = vec 0 0 0;
          d1 = (if isKeyDown inp ''KeyW'' then d0\<lparr>vz := vz d0 - 1\<rparr> else d0);
          d2 = (if isKeyDown inp ''KeyS'' then d1\<lparr>vz := vz d1 + 1\<rparr> else d1);
          d3 = (if isKeyDown inp ''KeyA'' then d2\<lparr>vx := vx d2 - 1\<rparr> else d2);
          d4 = (if isKeyDown inp ''KeyD'' then d3\<lparr>vx := vx d3 + 1\<rparr> else d3)
      in d4)"

text \<open>
  The direction vector as it stands when it is multiplied by \<^verbatim>\<open>moveSpeed\<close>: normalised
  and turned by the yaw when its length is positive, left as it is otherwise.
\<close>

definition move_direction :: "input \<Rightarrow> real \<Rightarrow> vec3" where
  "move_direction inp yaw =
     (let direction = key_direction inp
      in if vlength direction > 0
         then applyAxisAngle (vec 0 1 0) yaw (normalizeV direction)
         else direction)"

definition clamp_pitch :: "real \<Rightarrow> real" where
  "clamp_pitch r = max (- pi / 2) (min (pi / 2) r)"

definition handleInput :: "real \<Rightarrow> input \<Rightarrow> player \<Rightarrow> player \<times> input" where
  "handleInput delta inp p =
     (if \<not> p_input p then (p, inp)
      else
        let (p1, inp1) =
              (if pointerLocked inp
               then (let (mouseDelta, inp') = getMouseDelta inp;
                         yaw = rotation_y p - fst mouseDelta * mouseSensitivity p;
                         pitch = rotation_x p - snd mouseDelta * mouseSensitivity p
                     in (p\<lparr>rotation_y := yaw, rotation_x := clamp_pitch pitch\<rparr>, inp'))
               else (p, inp));
            moveSpeed = p_speed p1 * delta;
            direction = key_direction inp1;
            p2 = (if vlength direction > 0
                  then let direction' = applyAxisAngle (vec 0 1 0) (rotation_y p1)
                                          (normalizeV direction)
                       in p1\<lparr>p_position := (p_position p1)
                              \<lparr>vx := vx (p_position p1) + vx direction' * moveSpeed,
                               vz := vz (p_position p1) + vz direction' * moveSpeed\<rparr>\<rparr>
                  else p1);
            p3 = (if isKeyDown inp1 ''Space'' \<and> onGround p2
                  then p2\<lparr>velocity := (velocity p2)\<lparr>vy := jumpForce p2\<rparr>, onGround := False\<rparr>
                  else p2)
        in (p3, inp1))"

definition applyPhysics :: "real \<Rightarrow> player \<Rightarrow> player" where
  "applyPhysics delta p =
     (let p1 = p\<lparr>velocity := (velocity p)\<lparr>vy := vy (velocity p) + gravity p * delta\<rparr>\<rparr>;
          p2 = p1\<lparr>p_position := (p_position p1)
                    \<lparr>vy := vy (p_position p1) + vy (velocity p1) * delta\<rparr>\<rparr>
      in if vy (p_position p2) \<le> 1
         then p2\<lparr>p_position := (p_position p2)\<lparr>vy := 1\<rparr>,
                 velocity := (velocity p2)\<lparr>vy := 0\<rparr>,
                 onGround := True\<rparr>
         else p2)"

definition checkBounds :: "player \<Rightarrow> player" where
  "checkBounds p =
     (let bounds = 50
      in p\<lparr>p_position := (p_position p)
              \<lparr>vx := max (- bounds) (min bounds (vx (p_position p))),
               vz := max (- bounds) (min bounds (vz (p_position p)))\<rparr>\<rparr>)"

definition Player_update :: "real \<Rightarrow> input \<Rightarrow> player \<Rightarrow> player \<times> input" where
  "Player_update delta inp p =
     (let (p1, inp1) = handleInput delta inp p
      in (checkBounds (applyPhysics delta p1), inp1))"

text \<open>
  \<^verbatim>\<open>takeDamage\<close>: subtract, then reset to zero when the result is not positive
  (\<^verbatim>\<open>die\<close> only logs).
\<close>

definition Player_takeDamage :: "real \<Rightarrow> player \<Rightarrow> player" where
  "Player_takeDamage amount p =
     (let p1 = p\<lparr>health := health p - amount\<rparr>
      in if health p1 \<le> 0 then p1\<lparr>health := 0\<rparr> else p1)"

definition addScore :: "real \<Rightarrow> player \<Rightarrow> player" where
  "addScore points p = p\<lparr>score := score p + points\<rparr>"

datatype player_call = TakeDamage real | AddScore real

fun do_call :: "player_call \<Rightarrow> player \<Rightarrow> player" where
  "do_call (TakeDamage amount) p = Player_takeDamage amount p"
| "do_call (AddScore points) p = addScore points p"

definition player_calls :: "player_call list \<Rightarrow> player \<Rightarrow> player" where
  "player_calls cs p = fold do_call cs p"

fun damage_nonneg :: "player_call \<Rightarrow> bool" where
  "damage_nonneg (TakeDamage amount) = (0 \<le> amount)"
| "damage_nonneg (AddScore points) = True"

section \<open>Ground (src/components/Ground.js)\<close>

record ground_options =
  o_size :: "real option"
  o_color :: "real option"

definition no_ground_options :: ground_options where
  "no_ground_options = \<lparr>o_size = None, o_color = None\<rparr>"

text \<open>
  A Ground keeps only its mesh: \<open>g_size\<close> and \<open>g_color\<close> are the size and colour the
  plane is built with, \<open>grid_size\<close> the size of the grid helper.
\<close>

record ground =
  g_size :: real
  g_color :: real
  grid_size :: real

definition Ground_new :: "ground_options \<Rightarrow> ground" where
  "Ground_new options =
     (let size = or_default (o_size options) 100;
          color = or_default (o_color options) 3066993
      in \<lparr>g_size = size, g_color = color, grid_size = size\<rparr>)"

section \<open>Enemy (src/components/Enemy.js): fields and constructor\<close>

record enemy_options =
  eo_speed :: "real option"
  eo_target :: "ref option"
  eo_damage :: "real option"
  eo_attackRange :: "real option"
  eo_attackCooldown :: "real option"
  eo_position :: "vec3 option"

definition no_enemy_options :: enemy_options where
  "no_enemy_options =
     \<lparr>eo_speed = None, eo_target = None, eo_damage = None, eo_attackRange = None,
      eo_attackCooldown = None, eo_position = None\<rparr>"

text \<open>
  The fields of an Enemy. \<open>target\<close> is a reference to another object (or null),
  \<open>e_position\<close> is \<^verbatim>\<open>mesh.position\<close>, \<open>e_color\<close> the colour of the mesh material,
  \<open>e_game\<close> tells whether \<^verbatim>\<open>this.game\<close> has been set by \<^verbatim>\<open>init\<close>. The orientation
  set by \<^verbatim>\<open>lookAt\<close> is not part of the state.
\<close>

record enemy =
  e_speed :: real
  target :: "ref option"
  damage :: real
  attackRange :: real
  attackCooldown :: real
  timeSinceAttack :: real
  e_position :: vec3
  e_color :: real
  alive :: bool
  e_game :: bool

text \<open>
  \<^verbatim>\<open>setPosition\<close>: the given position, or a point on a circle drawn from two values of
  \<^verbatim>\<open>Math.random()\<close>, passed here as \<open>rnd1\<close> and \<open>rnd2\<close>.
\<close>

definition setPosition :: "vec3 option \<Rightarrow> real \<Rightarrow> real \<Rightarrow> vec3" where
  "setPosition position rnd1 rnd2 =
     (case position of
        Some v \<Rightarrow> v
      | None \<Rightarrow>
          let angle = rnd1 * pi * 2;
              distance = 10 + rnd2 * 20
          in vec (cos angle * distance) (1 / 2) (sin angle * distance))"

definition Enemy_new :: "enemy_options \<Rightarrow> real \<Rightarrow> real \<Rightarrow> enemy" where
  "Enemy_new options rnd1 rnd2 =
     \<lparr>e_speed = or_default (eo_speed options) 2,
      target = eo_target options,
      damage = or_default (eo_damage options) 10,
      attackRange = or_default (eo_attackRange options) 2,
      attackCooldown = or_default (eo_attackCooldown options) 1,
      timeSinceAttack = 0,
      e_position = setPosition (eo_position options) rnd1 rnd2,
      e_color = 15158332,
      alive = True,
      e_game = False\<rparr>"

section \<open>The world: objects, the entity collection and the call history\<close>

text \<open>
  The objects of the program live in a store indexed by reference: the three entity
  classes of the repository, and plain objects that have at most a mesh (with its
  position) and none of the methods \<^verbatim>\<open>takeDamage\<close> and \<^verbatim>\<open>addScore\<close>.
\<close>

datatype obj =
    PlayerO player
  | EnemyO enemy
  | GroundO ground
  | PlainO "vec3 option"

text \<open>
  The history records the method calls whose number the properties below count: an
  update call issued by the driver to an entity, a call of \<^verbatim>\<open>Game.remove\<close>, and a call
  of \<^verbatim>\<open>Enemy.attack\<close>.
\<close>

datatype call = UpdateCall ref | RemoveCall ref | AttackCall ref

text \<open>
  \<open>entities\<close> is \<^verbatim>\<open>Game.entities\<close>; \<open>scene\<close> lists the owners of the meshes attached to
  the scene; \<open>timers\<close> are the pending colour reverts scheduled by \<^verbatim>\<open>setTimeout\<close> (owner
  and original colour).
\<close>

record world =
  entities :: "ref list"
  scene :: "ref list"
  isRunning :: bool
  objs :: "ref \<rightharpoonup> obj"
  timers :: "(ref \<times> real) list"
  history :: "call list"

text \<open>
  The optional methods of an entity, as the driver sees them: \<^verbatim>\<open>init(game)\<close> and
  \<^verbatim>\<open>update(delta, game)\<close>, each a change of the world when present.
\<close>

record methods =
  m_init :: "(world \<Rightarrow> world) option"
  m_update :: "(real \<Rightarrow> world \<Rightarrow> world) option"

text \<open>\<^verbatim>\<open>obj.mesh\<close> and its position, when the object has a mesh.\<close>

fun mesh_position :: "obj \<Rightarrow> vec3 option" where
  "mesh_position (PlayerO p) = Some (p_position p)"
| "mesh_position (EnemyO e) = Some (e_position e)"
| "mesh_position (GroundO g) = Some (vec 0 0 0)"
| "mesh_position (PlainO m) = m"

fun has_takeDamage :: "obj \<Rightarrow> bool" where
  "has_takeDamage (PlayerO p) = True"
| "has_takeDamage (EnemyO e) = True"
| "has_takeDamage (GroundO g) = False"
| "has_takeDamage (PlainO m) = False"

definition has_mesh :: "world \<Rightarrow> ref \<Rightarrow> bool" where
  "has_mesh w r = (case objs w r of None \<Rightarrow> False | Some ob \<Rightarrow> mesh_position ob \<noteq> None)"

section \<open>Game (src/core/Game.js)\<close>

text \<open>
  \<^verbatim>\<open>Array.prototype.indexOf\<close> (the first index holding the value, or -1) and
  \<^verbatim>\<open>splice(index, 1)\<close>.
\<close>

fun indexOf :: "'a list \<Rightarrow> 'a \<Rightarrow> int" where
  "indexOf [] x = - 1"
| "indexOf (y # ys) x =
     (if y = x then 0 else (let i = indexOf ys x in if i > - 1 then i + 1 else - 1))"

definition splice1 :: "nat \<Rightarrow> 'a list \<Rightarrow> 'a list" where
  "splice1 i xs = take i xs @ drop (Suc i) xs"

text \<open>
  The scene's child list, as the graphics library keeps it: adding an object detaches it
  from its parent first, removing an absent object does nothing.
\<close>

definition scene_add :: "ref \<Rightarrow> ref list \<Rightarrow> ref list" where
  "scene_add m cs = remove1 m cs @ [m]"

definition scene_remove :: "ref \<Rightarrow> ref list \<Rightarrow> ref list" where
  "scene_remove m cs = remove1 m cs"

definition Game_new :: "(ref \<rightharpoonup> obj) \<Rightarrow> world" where
  "Game_new store =
     \<lparr>entities = [], scene = [], isRunning = False, objs = store, timers = [], history = []\<rparr>"

definition Game_add :: "(ref \<Rightarrow> methods) \<Rightarrow> ref \<Rightarrow> world \<Rightarrow> world" where
  "Game_add ct entity w =
     (let w1 = w\<lparr>entities := entities w @ [entity]\<rparr>;
          w2 = (if has_mesh w1 entity then w1\<lparr>scene := scene_add entity (scene w1)\<rparr> else w1)
      in case m_init (ct entity) of
           None \<Rightarrow> w2
         | Some init \<Rightarrow> init w2)"

definition Game_remove :: "ref \<Rightarrow> world \<Rightarrow> world" where
  "Game_remove entity w =
     (let w0 = w\<lparr>history := history w @ [RemoveCall entity]\<rparr>;
          index = indexOf (entities w0) entity
      in if index > - 1
         then let w1 = w0\<lparr>entities := splice1 (nat index) (entities w0)\<rparr>
              in if has_mesh w1 entity then w1\<lparr>scene := scene_remove entity (scene w1)\<rparr>
                 else w1
         else w0)"

definition Game_stop :: "world \<Rightarrow> world" where
  "Game_stop w = w\<lparr>isRunning := False\<rparr>"

text \<open>
  \<^verbatim>\<open>entities.forEach\<close>: the length is read once, before the first callback; index \<open>k\<close>
  runs from 0 below that length, and the callback is called at \<open>k\<close> only when the array
  still has an element there. The array is read again at every index, so a removal made
  by a callback is seen by the rest of the pass.
\<close>

definition forEach_step :: "(ref \<Rightarrow> methods) \<Rightarrow> real \<Rightarrow> nat \<Rightarrow> world \<Rightarrow> world" where
  "forEach_step ct delta k w =
     (if k < length (entities w)
      then let entity = entities w ! k
           in case m_update (ct entity) of
                None \<Rightarrow> w
              | Some update \<Rightarrow> update delta (w\<lparr>history := history w @ [UpdateCall entity]\<rparr>)
      else w)"

definition update_pass :: "(ref \<Rightarrow> methods) \<Rightarrow> real \<Rightarrow> world \<Rightarrow> world" where
  "update_pass ct delta w = fold (forEach_step ct delta) [0..<length (entities w)] w"

text \<open>
  One frame of \<^verbatim>\<open>animate\<close>, with the elapsed time \<open>delta\<close> read from the clock and the
  registered callbacks \<open>updateCallbacks\<close>. Scheduling the next frame and rendering do not
  change the state.
\<close>

definition Game_animate ::
  "(ref \<Rightarrow> methods) \<Rightarrow> (real \<Rightarrow> world \<Rightarrow> world) list \<Rightarrow> real \<Rightarrow> world \<Rightarrow> world" where
  "Game_animate ct updateCallbacks delta w =
     (if \<not> isRunning w then w
      else let w1 = update_pass ct delta w
           in fold (\<lambda>callback. callback delta) updateCallbacks w1)"

text \<open>\<^verbatim>\<open>start\<close> sets the running flag and runs the first frame.\<close>

definition Game_start ::
  "(ref \<Rightarrow> methods) \<Rightarrow> (real \<Rightarrow> world \<Rightarrow> world) list \<Rightarrow> real \<Rightarrow> world \<Rightarrow> world" where
  "Game_start ct updateCallbacks delta w =
     Game_animate ct updateCallbacks delta (w\<lparr>isRunning := True\<rparr>)"

text \<open>A sequence of add and remove operations on the collection.\<close>

datatype game_op = Add ref | Remove ref

fun do_op :: "(ref \<Rightarrow> methods) \<Rightarrow> game_op \<Rightarrow> world \<Rightarrow> world" where
  "do_op ct (Add e) w = Game_add ct e w"
| "do_op ct (Remove e) w = Game_remove e w"

definition game_ops :: "(ref \<Rightarrow> methods) \<Rightarrow> game_op list \<Rightarrow> world \<Rightarrow> world" where
  "game_ops ct ops w = fold (do_op ct) ops w"

text \<open>Every add in the sequence is applied to an entity that is not in the collection.\<close>

fun adds_absent :: "(ref \<Rightarrow> methods) \<Rightarrow> game_op list \<Rightarrow> world \<Rightarrow> bool" where
  "adds_absent ct [] w = True"
| "adds_absent ct (Add e # ops) w =
     (e \<notin> set (entities w) \<and> adds_absent ct ops (Game_add ct e w))"
| "adds_absent ct (Remove e # ops) w = adds_absent ct ops (Game_remove e w)"

section \<open>Enemy (src/components/Enemy.js): behaviour\<close>

definition get_enemy :: "world \<Rightarrow> ref \<Rightarrow> enemy option" where
  "get_enemy w r = (case objs w r of Some (EnemyO e) \<Rightarrow> Some e | _ \<Rightarrow> None)"

definition put_enemy :: "ref \<Rightarrow> enemy \<Rightarrow> world \<Rightarrow> world" where
  "put_enemy r e w = w\<lparr>objs := (objs w)(r \<mapsto> EnemyO e)\<rparr>"

text \<open>\<^verbatim>\<open>this.target && this.target.mesh\<close>: the position of the target's mesh, if any.\<close>

definition target_position :: "world \<Rightarrow> enemy \<Rightarrow> vec3 option" where
  "target_position w e =
     (case target e of
        None \<Rightarrow> None
      | Some t \<Rightarrow> (case objs w t of None \<Rightarrow> None | Some ob \<Rightarrow> mesh_position ob))"

definition Enemy_init :: "ref \<Rightarrow> world \<Rightarrow> world" where
  "Enemy_init self w =
     (case get_enemy w self of
        None \<Rightarrow> w
      | Some e \<Rightarrow> put_enemy self (e\<lparr>e_game := True\<rparr>) w)"

text \<open>The movement of \<^verbatim>\<open>chaseTarget\<close>, given the position \<open>tp\<close> of the target.\<close>

definition chase_step :: "real \<Rightarrow> vec3 \<Rightarrow> enemy \<Rightarrow> enemy" where
  "chase_step delta tp e =
     (let direction = (subVectors tp (e_position e))\<lparr>vy := 0\<rparr>;
          distance = vlength direction
      in if distance > attackRange e
         then let direction' = normalizeV direction
              in e\<lparr>e_position := (e_position e)
                     \<lparr>vx := vx (e_position e) + vx direction' * e_speed e * delta,
                      vz := vz (e_position e) + vz direction' * e_speed e * delta\<rparr>\<rparr>
         else e)"

definition Enemy_chaseTarget :: "real \<Rightarrow> ref \<Rightarrow> world \<Rightarrow> world" where
  "Enemy_chaseTarget delta self w =
     (case get_enemy w self of
        None \<Rightarrow> w
      | Some e \<Rightarrow>
          (case target_position w e of
             None \<Rightarrow> w
           | Some tp \<Rightarrow> put_enemy self (chase_step delta tp e) w))"

text \<open>\<^verbatim>\<open>wander\<close>, with \<open>now\<close> the value of \<^verbatim>\<open>Date.now()\<close>.\<close>

definition Enemy_wander :: "real \<Rightarrow> real \<Rightarrow> ref \<Rightarrow> world \<Rightarrow> world" where
  "Enemy_wander delta now self w =
     (case get_enemy w self of
        None \<Rightarrow> w
      | Some e \<Rightarrow>
          let time = now * (1 / 1000)
          in put_enemy self
               (e\<lparr>e_position := (e_position e)
                    \<lparr>vx := vx (e_position e) + sin time * e_speed e * delta * (1 / 2),
                     vz := vz (e_position e) + cos time * e_speed e * delta * (1 / 2)\<rparr>\<rparr>) w)"

text \<open>
  \<^verbatim>\<open>die\<close>: clear the alive flag, award 10 points when the target has \<^verbatim>\<open>addScore\<close>
  (only a Player has), and ask the driver to remove this enemy when \<^verbatim>\<open>this.game\<close> is set.
\<close>

definition Enemy_die :: "ref \<Rightarrow> world \<Rightarrow> world" where
  "Enemy_die self w =
     (case get_enemy w self of
        None \<Rightarrow> w
      | Some e \<Rightarrow>
          let w1 = put_enemy self (e\<lparr>alive := False\<rparr>) w;
              w2 = (case target e of
                      None \<Rightarrow> w1
                    | Some t \<Rightarrow>
                        (case objs w1 t of
                           Some (PlayerO p) \<Rightarrow> w1\<lparr>objs := (objs w1)(t \<mapsto> PlayerO (addScore 10 p))\<rparr>
                         | _ \<Rightarrow> w1))
          in if e_game e then Game_remove self w2 else w2)"

definition Enemy_takeDamage :: "real \<Rightarrow> ref \<Rightarrow> world \<Rightarrow> world" where
  "Enemy_takeDamage amount self w = Enemy_die self w"

text \<open>
  \<^verbatim>\<open>target.takeDamage(amount)\<close>, dispatched on the class of the target; \<open>None\<close> when the
  target has no such method.
\<close>

definition target_takeDamage :: "ref \<Rightarrow> real \<Rightarrow> world \<Rightarrow> world option" where
  "target_takeDamage t amount w =
     (case objs w t of
        Some (PlayerO p) \<Rightarrow> Some (w\<lparr>objs := (objs w)(t \<mapsto> PlayerO (Player_takeDamage amount p))\<rparr>)
      | Some (EnemyO e) \<Rightarrow> Some (Enemy_takeDamage amount t w)
      | _ \<Rightarrow> None)"

text \<open>
  \<^verbatim>\<open>attack\<close>: when the target has \<^verbatim>\<open>takeDamage\<close>, damage it, turn the mesh bright red and
  schedule the revert to the original colour.
\<close>

definition Enemy_attack :: "ref \<Rightarrow> world \<Rightarrow> world" where
  "Enemy_attack self w =
     (case get_enemy w self of
        None \<Rightarrow> w
      | Some e \<Rightarrow>
          (case target e of
             None \<Rightarrow> w
           | Some t \<Rightarrow>
               (case target_takeDamage t (damage e) w of
                  None \<Rightarrow> w
                | Some w1 \<Rightarrow>
                    (case get_enemy w1 self of
                       None \<Rightarrow> w1
                     | Some e1 \<Rightarrow>
                         let originalColor = e_color e1;
                             w2 = put_enemy self (e1\<lparr>e_color := 16711680\<rparr>) w1
                         in w2\<lparr>timers := timers w2 @ [(self, originalColor)]\<rparr>))))"

text \<open>The deferred callback of \<^verbatim>\<open>attack\<close>: put the original colour back.\<close>

definition revert_color :: "ref \<times> real \<Rightarrow> world \<Rightarrow> world" where
  "revert_color tm w =
     (case get_enemy w (fst tm) of
        None \<Rightarrow> w
      | Some e \<Rightarrow> put_enemy (fst tm) (e\<lparr>e_color := snd tm\<rparr>) w)"

definition Enemy_tryAttack :: "ref \<Rightarrow> world \<Rightarrow> world" where
  "Enemy_tryAttack self w =
     (case get_enemy w self of
        None \<Rightarrow> w
      | Some e \<Rightarrow>
          (case target_position w e of
             None \<Rightarrow> w
           | Some tp \<Rightarrow>
               let distance = distanceTo (e_position e) tp
               in if distance \<le> attackRange e \<and> timeSinceAttack e \<ge> attackCooldown e
                  then let w1 = Enemy_attack self (w\<lparr>history := history w @ [AttackCall self]\<rparr>)
                       in (case get_enemy w1 self of
                             None \<Rightarrow> w1
                           | Some e1 \<Rightarrow> put_enemy self (e1\<lparr>timeSinceAttack := 0\<rparr>) w1)
                  else w))"

definition Enemy_update :: "real \<Rightarrow> real \<Rightarrow> ref \<Rightarrow> world \<Rightarrow> world" where
  "Enemy_update delta now self w =
     (case get_enemy w self of
        None \<Rightarrow> w
      | Some e \<Rightarrow>
          if \<not> alive e then w
          else
            let e1 = e\<lparr>timeSinceAttack := timeSinceAttack e + delta\<rparr>;
                w1 = put_enemy self e1 w;
                w2 = (if target_position w1 e1 \<noteq> None
                      then Enemy_tryAttack self (Enemy_chaseTarget delta self w1)
                      else Enemy_wander delta now self w1)
            in (case get_enemy w2 self of
                  None \<Rightarrow> w2
                | Some e2 \<Rightarrow>
                    put_enemy self
                      (e2\<lparr>e_position := (e_position e2)
                            \<lparr>vy := 1 / 2 + sin (now * (5 / 1000)) * (2 / 10)\<rparr>\<rparr>) w2))"

section \<open>Observations on the history, and example worlds\<close>

definition attack_calls :: "ref \<Rightarrow> world \<Rightarrow> nat" where
  "attack_calls r w = count_list (history w) (AttackCall r)"

definition remove_calls :: "ref \<Rightarrow> world \<Rightarrow> nat" where
  "remove_calls r w = count_list (history w) (RemoveCall r)"

definition update_calls :: "ref \<Rightarrow> world \<Rightarrow> nat" where
  "update_calls r w = count_list (history w) (UpdateCall r)"

text \<open>\<^verbatim>\<open>takeDamage\<close> called on the same enemy once for each amount of the list.\<close>

definition takeDamage_calls :: "real list \<Rightarrow> ref \<Rightarrow> world \<Rightarrow> world" where
  "takeDamage_calls amounts self w = fold (\<lambda>amount. Enemy_takeDamage amount self) amounts w"

text \<open>An entity without \<^verbatim>\<open>init\<close> and \<^verbatim>\<open>update\<close>.\<close>

definition no_methods :: methods where
  "no_methods = \<lparr>m_init = None, m_update = None\<rparr>"

text \<open>
  Entities whose \<^verbatim>\<open>update\<close> does nothing, except that the update of the entity \<open>who\<close>
  calls \<^verbatim>\<open>game.remove(victim)\<close>.
\<close>

definition removing :: "ref \<Rightarrow> ref \<Rightarrow> ref \<Rightarrow> methods" where
  "removing who victim r =
     \<lparr>m_init = None,
      m_update = Some (\<lambda>delta w. if r = who then Game_remove victim w else w)\<rparr>"

definition three_entities :: world where
  "three_entities = game_ops (\<lambda>r. no_methods) [Add 1, Add 2, Add 3] (Game_new Map.empty)"

text \<open>The methods of an Enemy, with \<open>now\<close> the value of \<^verbatim>\<open>Date.now()\<close>.\<close>

definition enemy_methods :: "real \<Rightarrow> ref \<Rightarrow> methods" where
  "enemy_methods now r =
     \<lparr>m_init = Some (Enemy_init r), m_update = Some (\<lambda>delta. Enemy_update delta now r)\<rparr>"

definition demo_player :: player where
  "demo_player = Player_init True (Player_new no_player_options)"

definition demo_enemy :: "ref \<Rightarrow> enemy" where
  "demo_enemy t =
     Enemy_new (no_enemy_options\<lparr>eo_target := Some t, eo_position := Some (vec 3 (1 / 2) 0)\<rparr>) 0 0"

text \<open>
  A world with an object \<open>tobj\<close> at reference 3 and, at reference 2, an enemy that targets
  it and has been added to the game.
\<close>

definition demo_world :: "obj \<Rightarrow> world" where
  "demo_world tobj =
     Game_add (enemy_methods 0) 2 (Game_new [3 \<mapsto> tobj, 2 \<mapsto> EnemyO (demo_enemy 3)])"

section \<open>Player: health and damage\<close>

lemma health_takeDamage: "health (Player_takeDamage a p) = max 0 (health p - a)"
  by (simp add: Player_takeDamage_def Let_def max_def)

lemma health_addScore: "health (addScore n p) = health p"
  by (simp add: addScore_def)

text \<open>
  C4. After \<^verbatim>\<open>takeDamage(a)\<close> the health is \<open>max 0 (h - a)\<close> for every previous health
  \<open>h\<close> and amount \<open>a\<close>, it is never negative, and a default Player reads health 0 after
  \<^verbatim>\<open>takeDamage(150)\<close>.
\<close>

theorem takeDamage_health_max:
  "health (Player_takeDamage a p) = max 0 (health p - a)
   \<and> 0 \<le> health (Player_takeDamage a p)
   \<and> health (Player_new no_player_options) = 100
   \<and> health (Player_takeDamage 150 (Player_new no_player_options)) = 0"
  by (simp add: health_takeDamage Player_new_def no_player_options_def or_default_def)


text \<open>
  C3 as stated fails: there is no upper clamp, so a negative damage amount raises the
  health of a default Player above 100.
\<close>

theorem health_above_100_counterexample:
  "\<not> health (player_calls [TakeDamage (- 50)] (Player_new no_player_options)) \<le> 100"
  by (simp add: player_calls_def health_takeDamage Player_new_def no_player_options_def
      or_default_def)

lemma health_do_call_bounds:
  assumes "damage_nonneg c" and "0 \<le> health p" and "health p \<le> 100"
  shows "0 \<le> health (do_call c p) \<and> health (do_call c p) \<le> 100"
proof (cases c)
  case (TakeDamage a)
  with assms show ?thesis by (simp add: health_takeDamage)
next
  case (AddScore n)
  with assms show ?thesis by (simp add: health_addScore)
qed

lemma health_fold_bounds:
  "list_all damage_nonneg cs \<Longrightarrow> 0 \<le> health p \<Longrightarrow> health p \<le> 100 \<Longrightarrow>
   0 \<le> health (fold do_call cs p) \<and> health (fold do_call cs p) \<le> 100"
proof (induction cs arbitrary: p)
  case Nil
  then show ?case by simp
next
  case (Cons c cs)
  from Cons.prems have c: "damage_nonneg c" and cs: "list_all damage_nonneg cs"
    by simp_all
  from health_do_call_bounds [OF c Cons.prems(2) Cons.prems(3)]
  have "0 \<le> health (fold do_call cs (do_call c p))
      \<and> health (fold do_call cs (do_call c p)) \<le> 100"
    using Cons.IH [OF cs] by blast
  then show ?case by simp
qed

lemma health_new_bounds:
  assumes "o_health options = None \<or> (\<exists>h. o_health options = Some h \<and> 0 \<le> h \<and> h \<le> 100)"
  shows "0 \<le> health (Player_new options) \<and> health (Player_new options) \<le> 100"
  using assms by (auto simp: Player_new_def or_default_def)

text \<open>
  C3, amended. Starting from a Player constructed with the health option omitted or
  between 0 and 100, after any sequence of \<^verbatim>\<open>takeDamage\<close> calls with non-negative amounts
  and \<^verbatim>\<open>addScore\<close> calls with any points, the health lies in the closed interval from 0
  to 100.
\<close>

theorem health_in_range:
  assumes "o_health options = None \<or> (\<exists>h. o_health options = Some h \<and> 0 \<le> h \<and> h \<le> 100)"
    and "list_all damage_nonneg cs"
  shows "0 \<le> health (player_calls cs (Player_new options))
       \<and> health (player_calls cs (Player_new options)) \<le> 100"
proof -
  from health_new_bounds [OF assms(1)]
  have "0 \<le> health (Player_new options)" and "health (Player_new options) \<le> 100"
    by simp_all
  with assms(2) show ?thesis
    unfolding player_calls_def by (rule health_fold_bounds)
qed

theorem health_in_range_witness:
  "list_all damage_nonneg [TakeDamage 30, AddScore (- 7), TakeDamage 150, AddScore 10]
   \<and> health (player_calls [TakeDamage 30, AddScore (- 7), TakeDamage 150, AddScore 10]
        (Player_new no_player_options)) = 0"
proof -
  have a: "o_health no_player_options = None
         \<or> (\<exists>h. o_health no_player_options = Some h \<and> 0 \<le> h \<and> h \<le> 100)"
    by (simp add: no_player_options_def)
  have b: "list_all damage_nonneg [TakeDamage 30, AddScore (- 7), TakeDamage 150, AddScore 10]"
    by simp
  have "health (player_calls [TakeDamage 30, AddScore (- 7), TakeDamage 150, AddScore 10]
          (Player_new no_player_options)) \<le> 0"
    by (simp add: player_calls_def health_takeDamage health_addScore Player_new_def
        no_player_options_def or_default_def)
  with health_in_range [OF a b] b show ?thesis by simp
qed

section \<open>Player: physics\<close>

text \<open>
  C7. For every elapsed time \<open>dt \<ge> 0\<close> and every starting state, after
  \<^verbatim>\<open>applyPhysics\<close> the vertical position is at least the ground height 1; when the
  integrated position is at or below 1 it is set to exactly 1, the vertical velocity is
  zeroed and the grounded flag is set.
\<close>

theorem applyPhysics_above_ground:
  assumes "0 \<le> dt"
  shows "1 \<le> vy (p_position (applyPhysics dt p))
       \<and> (vy (p_position p) + (vy (velocity p) + gravity p * dt) * dt \<le> 1 \<longrightarrow>
            vy (p_position (applyPhysics dt p)) = 1
          \<and> vy (velocity (applyPhysics dt p)) = 0
          \<and> onGround (applyPhysics dt p))"
  by (simp add: applyPhysics_def Let_def)

theorem applyPhysics_above_ground_witness:
  "(0::real) \<le> 1 / 2
   \<and> vy (p_position (applyPhysics (1 / 2) (Player_init True (Player_new no_player_options)))) = 1
   \<and> vy (velocity (applyPhysics (1 / 2) (Player_init True (Player_new no_player_options)))) = 0
   \<and> onGround (applyPhysics (1 / 2) (Player_init True (Player_new no_player_options)))"
proof -
  have h: "(0::real) \<le> 1 / 2" by simp
  have "vy (p_position (Player_init True (Player_new no_player_options)))
        + (vy (velocity (Player_init True (Player_new no_player_options)))
           + gravity (Player_init True (Player_new no_player_options)) * (1 / 2)) * (1 / 2) \<le> 1"
    by (simp add: Player_init_def Player_new_def vec_def)
  with applyPhysics_above_ground [OF h, of "Player_init True (Player_new no_player_options)"]
  show ?thesis by simp
qed

section \<open>Player: movement direction\<close>

lemma vlength_nonneg: "0 \<le> vlength v"
  by (simp add: vlength_def)

lemma vlength_zero_iff: "vlength v = 0 \<longleftrightarrow> vx v = 0 \<and> vy v = 0 \<and> vz v = 0"
proof -
  have "vx v * vx v + vy v * vy v + vz v * vz v = 0 \<longleftrightarrow> vx v = 0 \<and> vy v = 0 \<and> vz v = 0"
    by (smt (verit) mult_eq_0_iff zero_le_square)
  then show ?thesis by (simp add: vlength_def)
qed

lemma vlength_normalize:
  assumes "vlength v \<noteq> 0"
  shows "vlength (normalizeV v) = 1"
proof -
  define L where "L = vlength v"
  have Lpos: "0 < L" using assms vlength_nonneg [of v] by (simp add: L_def)
  have sq: "L * L = vx v * vx v + vy v * vy v + vz v * vz v"
    by (simp add: L_def vlength_def)
  have "vx v / L * (vx v / L) + vy v / L * (vy v / L) + vz v / L * (vz v / L)
        = (vx v * vx v + vy v * vy v + vz v * vz v) / (L * L)"
    by (simp add: add_divide_distrib)
  also have "\<dots> = 1" using Lpos by (simp add: sq [symmetric])
  finally show ?thesis
    using assms by (simp add: normalizeV_def divideScalar_def vlength_def [of "\<lparr>vx = _, vy = _, vz = _\<rparr>"] L_def)
qed

lemma vlength_applyAxisAngle_y:
  "vlength (applyAxisAngle (vec 0 1 0) a v) = vlength v"
proof -
  define s where "s = sin (a / 2)"
  define c where "c = cos (a / 2)"
  have sc: "s * s + c * c = 1"
    using sin_cos_squared_add [of "a / 2"] by (simp add: s_def c_def power2_eq_square)
  have cc: "c * c = 1 - s * s" using sc by simp
  have "(vx v + c * (2 * (s * vz v)) + s * (2 * (- (s * vx v))))
          * (vx v + c * (2 * (s * vz v)) + s * (2 * (- (s * vx v))))
        + (vz v + c * (2 * (- (s * vx v))) - s * (2 * (s * vz v)))
          * (vz v + c * (2 * (- (s * vx v))) - s * (2 * (s * vz v)))
        = (vx v * vx v + vz v * vz v) * ((1 - 2 * (s * s)) * (1 - 2 * (s * s)) + 4 * (s * s) * (c * c))"
    by (simp add: algebra_simps)
  also have "\<dots> = vx v * vx v + vz v * vz v"
    by (simp add: cc algebra_simps)
  finally have eq: "(vx v + c * (2 * (s * vz v)) + s * (2 * (- (s * vx v))))
          * (vx v + c * (2 * (s * vz v)) + s * (2 * (- (s * vx v))))
        + (vz v + c * (2 * (- (s * vx v))) - s * (2 * (s * vz v)))
          * (vz v + c * (2 * (- (s * vx v))) - s * (2 * (s * vz v)))
        = vx v * vx v + vz v * vz v" .
  have "vx (applyAxisAngle (vec 0 1 0) a v) = vx v + c * (2 * (s * vz v)) + s * (2 * (- (s * vx v)))"
    and "vy (applyAxisAngle (vec 0 1 0) a v) = vy v"
    and "vz (applyAxisAngle (vec 0 1 0) a v) = vz v + c * (2 * (- (s * vx v))) - s * (2 * (s * vz v))"
    by (simp_all add: applyAxisAngle_def applyQuaternion_def setFromAxisAngle_def vec_def
        Let_def s_def c_def)
  then have "vlength (applyAxisAngle (vec 0 1 0) a v)
      = sqrt ((vx v + c * (2 * (s * vz v)) + s * (2 * (- (s * vx v))))
          * (vx v + c * (2 * (s * vz v)) + s * (2 * (- (s * vx v))))
        + vy v * vy v
        + (vz v + c * (2 * (- (s * vx v))) - s * (2 * (s * vz v)))
          * (vz v + c * (2 * (- (s * vx v))) - s * (2 * (s * vz v))))"
    by (simp add: vlength_def)
  also have "\<dots> = sqrt (vx v * vx v + vy v * vy v + vz v * vz v)"
    using eq by (simp add: add.commute add.left_commute)
  finally show ?thesis by (simp add: vlength_def)
qed

lemma handleInput_position:
  assumes "p_input p"
  shows "p_position (fst (handleInput delta inp p)) =
         (p_position p)
           \<lparr>vx := vx (p_position p)
                  + vx (move_direction inp (rotation_y (fst (handleInput delta inp p))))
                    * (p_speed p * delta),
            vz := vz (p_position p)
                  + vz (move_direction inp (rotation_y (fst (handleInput delta inp p))))
                    * (p_speed p * delta)\<rparr>"
proof -
  have k: "key_direction (inp\<lparr>deltaX := 0, deltaY := 0\<rparr>) = key_direction inp"
    by (simp add: key_direction_def isKeyDown_def)
  show ?thesis
  proof (cases "vlength (key_direction inp) > 0")
    case True
    with assms show ?thesis
      by (simp add: handleInput_def move_direction_def getMouseDelta_def k Let_def
          split: prod.splits)
  next
    case False
    with vlength_nonneg [of "key_direction inp"] have "vlength (key_direction inp) = 0"
      by simp
    then have z: "key_direction inp = vec 0 0 0"
      by (simp add: vlength_zero_iff vec_def)
    from False assms show ?thesis
      by (simp add: handleInput_def move_direction_def getMouseDelta_def k Let_def z vec_def
          split: prod.splits)
  qed
qed

text \<open>
  C8. For every state of the keys, the direction vector that is scaled by speed and
  elapsed time is either the zero vector or has length one.
\<close>

theorem move_direction_zero_or_unit:
  "move_direction inp yaw = vec 0 0 0 \<or> vlength (move_direction inp yaw) = 1"
proof (cases "vlength (key_direction inp) > 0")
  case True
  then have "vlength (normalizeV (key_direction inp)) = 1"
    by (simp add: vlength_normalize)
  with True show ?thesis
    by (simp add: move_direction_def Let_def vlength_applyAxisAngle_y)
next
  case False
  with vlength_nonneg [of "key_direction inp"] have "vlength (key_direction inp) = 0"
    by simp
  then have "key_direction inp = vec 0 0 0"
    by (simp add: vlength_zero_iff vec_def)
  with False show ?thesis by (simp add: move_direction_def Let_def)
qed


section \<open>Constructors: defaulted options\<close>

text \<open>
  C9. An option is replaced by its default when it is omitted and also when it is the
  falsy value 0: a Player with health 0 gets health 100, an Enemy with speed 0 gets speed
  2 and with damage 0 gets damage 10, a Ground with size 0 gets size 100.
\<close>

theorem falsy_options_defaulted:
  "health (Player_new (po\<lparr>o_health := Some 0\<rparr>)) = 100
   \<and> e_speed (Enemy_new (eo\<lparr>eo_speed := Some 0\<rparr>) rnd1 rnd2) = 2
   \<and> damage (Enemy_new (eo\<lparr>eo_damage := Some 0\<rparr>) rnd1 rnd2) = 10
   \<and> g_size (Ground_new (gopt\<lparr>o_size := Some 0\<rparr>)) = 100
   \<and> health (Player_new (po\<lparr>o_health := None\<rparr>)) = 100
   \<and> e_speed (Enemy_new (eo\<lparr>eo_speed := None\<rparr>) rnd1 rnd2) = 2
   \<and> damage (Enemy_new (eo\<lparr>eo_damage := None\<rparr>) rnd1 rnd2) = 10
   \<and> g_size (Ground_new (gopt\<lparr>o_size := None\<rparr>)) = 100"
  by (simp add: Player_new_def Enemy_new_def Ground_new_def or_default_def Let_def)

section \<open>Game: the entity collection\<close>

lemma indexOf_ge: "- 1 \<le> indexOf xs x"
  by (induction xs) (auto simp: Let_def)

lemma indexOf_mem: "indexOf xs x > - 1 \<longleftrightarrow> x \<in> set xs"
  by (induction xs) (auto simp: Let_def)

lemma indexOf_splice: "x \<in> set xs \<Longrightarrow> splice1 (nat (indexOf xs x)) xs = remove1 x xs"
proof (induction xs)
  case Nil
  then show ?case by simp
next
  case (Cons y ys)
  show ?case
  proof (cases "y = x")
    case True
    then show ?thesis by (simp add: splice1_def)
  next
    case False
    with Cons.prems have m: "x \<in> set ys" by simp
    then have pos: "indexOf ys x > - 1" by (simp add: indexOf_mem)
    then have "nat (indexOf ys x + 1) = Suc (nat (indexOf ys x))" by simp
    with False pos Cons.IH [OF m] show ?thesis
      by (simp add: splice1_def Let_def)
  qed
qed

lemma entities_Game_remove: "entities (Game_remove e w) = remove1 e (entities w)"
proof (cases "e \<in> set (entities w)")
  case True
  then have "indexOf (entities w) e > - 1" by (simp add: indexOf_mem)
  with True show ?thesis
    by (simp add: Game_remove_def Let_def indexOf_splice)
next
  case False
  then have "\<not> indexOf (entities w) e > - 1" by (simp add: indexOf_mem)
  with False show ?thesis
    by (simp add: Game_remove_def Let_def remove1_idem)
qed

lemma entities_Game_add:
  assumes "\<forall>e init w'. m_init (ct e) = Some init \<longrightarrow> entities (init w') = entities w'"
  shows "entities (Game_add ct e w) = entities w @ [e]"
  using assms by (simp add: Game_add_def Let_def split: option.splits)

text \<open>
  C2 as stated fails: \<^verbatim>\<open>add\<close> appends without looking for the entity, so adding the same
  entity twice leaves two occurrences in the collection.
\<close>

theorem add_twice_counterexample:
  "\<not> distinct (entities (game_ops (\<lambda>r. no_methods) [Add 1, Add 1] (Game_new Map.empty)))"
  by (simp add: game_ops_def Game_add_def Game_new_def no_methods_def has_mesh_def Let_def)

text \<open>
  C2, amended. When no \<^verbatim>\<open>init\<close> hook changes the collection and every add of the
  sequence is applied to an entity that is not in the collection at that moment, a
  collection without duplicates stays without duplicates through any sequence of add and
  remove operations.
\<close>

theorem entities_distinct:
  assumes "\<forall>e init w'. m_init (ct e) = Some init \<longrightarrow> entities (init w') = entities w'"
    and "distinct (entities w)"
    and "adds_absent ct ops w"
  shows "distinct (entities (game_ops ct ops w))"
  using assms(2,3) unfolding game_ops_def
proof (induction ops arbitrary: w)
  case Nil
  then show ?case by simp
next
  case (Cons a ops)
  show ?case
  proof (cases a)
    case (Add e)
    with Cons.prems have "e \<notin> set (entities w)" and "adds_absent ct ops (Game_add ct e w)"
      by simp_all
    moreover have "distinct (entities (Game_add ct e w))"
      using Cons.prems(1) \<open>e \<notin> set (entities w)\<close>
      by (simp add: entities_Game_add [OF assms(1)])
    ultimately show ?thesis using Cons.IH Add by simp
  next
    case (Remove e)
    with Cons.prems have "adds_absent ct ops (Game_remove e w)" by simp
    moreover have "distinct (entities (Game_remove e w))"
      using Cons.prems(1) by (simp add: entities_Game_remove)
    ultimately show ?thesis using Cons.IH Remove by simp
  qed
qed

lemma entities_Enemy_init: "entities (Enemy_init r w) = entities w"
  by (simp add: Enemy_init_def put_enemy_def split: option.splits)

theorem entities_distinct_witness:
  "distinct (entities (Game_new Map.empty))
   \<and> adds_absent (enemy_methods 0) [Add 1, Add 2, Remove 1, Add 1] (Game_new Map.empty)
   \<and> distinct
        (entities (game_ops (enemy_methods 0) [Add 1, Add 2, Remove 1, Add 1]
           (Game_new Map.empty)))
   \<and> entities (game_ops (enemy_methods 0) [Add 1, Add 2, Remove 1, Add 1]
        (Game_new Map.empty)) = [2, 1]"
proof -
  have a: "\<forall>e init w'. m_init (enemy_methods 0 e) = Some init \<longrightarrow>
             entities (init w') = entities w'"
    by (auto simp: enemy_methods_def entities_Enemy_init)
  have b: "distinct (entities (Game_new Map.empty))"
    by (simp add: Game_new_def)
  have c: "adds_absent (enemy_methods 0) [Add 1, Add 2, Remove 1, Add 1] (Game_new Map.empty)"
    by (simp add: entities_Game_add [OF a] entities_Game_remove Game_new_def)
  have d: "entities (game_ops (enemy_methods 0) [Add 1, Add 2, Remove 1, Add 1]
             (Game_new Map.empty)) = [2, 1]"
    by (simp add: game_ops_def entities_Game_add [OF a] entities_Game_remove Game_new_def)
  from entities_distinct [OF a b c] b c d show ?thesis
    by blast
qed

section \<open>Game: the update pass\<close>

lemma three_entities_eq:
  "three_entities =
     \<lparr>entities = [1, 2, 3], scene = [], isRunning = False, objs = Map.empty, timers = [],
      history = []\<rparr>"
  by (simp add: three_entities_def game_ops_def Game_add_def Game_new_def no_methods_def
      has_mesh_def Let_def)

lemma upt3: "[0..<3] = [0, 1, 2]"
  by (simp add: upt_rec)

text \<open>
  When the middle entity is removed during the update of the first or of the third
  entity, the other two entities get one update call each.
\<close>

lemma middle_removed_by_first:
  "history (Game_start (removing 1 2) [] delta three_entities)
     = [UpdateCall 1, RemoveCall 2, UpdateCall 3]"
  by (simp add: three_entities_eq Game_start_def Game_animate_def update_pass_def upt3
      forEach_step_def removing_def Game_remove_def splice1_def has_mesh_def Let_def)

lemma middle_removed_by_last:
  "history (Game_start (removing 3 2) [] delta three_entities)
     = [UpdateCall 1, UpdateCall 2, UpdateCall 3, RemoveCall 2]"
  by (simp add: three_entities_eq Game_start_def Game_animate_def update_pass_def upt3
      forEach_step_def removing_def Game_remove_def splice1_def has_mesh_def Let_def)

text \<open>
  C1 fails on the code when the middle entity is removed during its own update: the
  third entity moves to index 1, the pass goes on at index 2, where the array has no
  element any more, and the third entity gets no update call in that frame.
\<close>

theorem middle_removed_skips_last:
  "entities three_entities = [1, 2, 3]
   \<and> history (Game_start (removing 2 2) [] delta three_entities)
       = [UpdateCall 1, UpdateCall 2, RemoveCall 2]
   \<and> entities (Game_start (removing 2 2) [] delta three_entities) = [1, 3]
   \<and> update_calls 1 (Game_start (removing 2 2) [] delta three_entities) = 1
   \<and> update_calls 3 (Game_start (removing 2 2) [] delta three_entities) = 0"
  by (simp add: three_entities_eq Game_start_def Game_animate_def update_pass_def upt3
      forEach_step_def removing_def Game_remove_def splice1_def has_mesh_def Let_def
      update_calls_def)

section \<open>Enemy: store and history lemmas\<close>

lemma get_put_enemy [simp]:
  "get_enemy (put_enemy r e w) r' = (if r' = r then Some e else get_enemy w r')"
  by (simp add: get_enemy_def put_enemy_def)

lemma put_enemy_fields [simp]:
  "history (put_enemy r e w) = history w"
  "entities (put_enemy r e w) = entities w"
  "timers (put_enemy r e w) = timers w"
  "scene (put_enemy r e w) = scene w"
  "objs (put_enemy r e w) = (objs w)(r \<mapsto> EnemyO e)"
  by (simp_all add: put_enemy_def)

lemma get_enemy_history [simp]: "get_enemy (w\<lparr>history := h\<rparr>) r = get_enemy w r"
  by (simp add: get_enemy_def)

lemma get_enemy_objs: "get_enemy w r = Some e \<longleftrightarrow> objs w r = Some (EnemyO e)"
  by (auto simp: get_enemy_def split: option.splits obj.splits)

lemma Game_remove_fields [simp]:
  "history (Game_remove r w) = history w @ [RemoveCall r]"
  "objs (Game_remove r w) = objs w"
  "timers (Game_remove r w) = timers w"
  by (simp_all add: Game_remove_def Let_def)

lemma get_enemy_Game_remove [simp]: "get_enemy (Game_remove r w) r' = get_enemy w r'"
  by (simp add: get_enemy_def)

lemma Enemy_die_self:
  assumes "get_enemy w self = Some e"
  shows "get_enemy (Enemy_die self w) self = Some (e\<lparr>alive := False\<rparr>)"
    and "history (Enemy_die self w) = history w @ (if e_game e then [RemoveCall self] else [])"
    and "timers (Enemy_die self w) = timers w"
  using assms
  by (auto simp: Enemy_die_def Let_def get_enemy_def put_enemy_def
      split: option.splits obj.splits)

lemma Enemy_die_other:
  assumes "get_enemy w r = Some e" and "r \<noteq> self"
  shows "get_enemy (Enemy_die self w) r = Some e"
  using assms
  by (auto simp: Enemy_die_def Let_def get_enemy_def put_enemy_def
      split: option.splits obj.splits)

lemma Enemy_die_attack_calls: "attack_calls r (Enemy_die self w) = attack_calls r w"
  by (auto simp: Enemy_die_def Let_def attack_calls_def put_enemy_def
      split: option.splits obj.splits)

lemma target_takeDamage_enemy:
  assumes "target_takeDamage t a w = Some w1" and "get_enemy w self = Some e"
  shows "\<exists>e1. get_enemy w1 self = Some e1 \<and> timeSinceAttack e1 = timeSinceAttack e"
    and "attack_calls r w1 = attack_calls r w"
proof -
  show "\<exists>e1. get_enemy w1 self = Some e1 \<and> timeSinceAttack e1 = timeSinceAttack e"
  proof (cases "objs w t")
    case None
    with assms show ?thesis by (simp add: target_takeDamage_def)
  next
    case (Some ob)
    show ?thesis
    proof (cases ob)
      case (PlayerO p)
      with Some assms show ?thesis
        by (auto simp: target_takeDamage_def get_enemy_def
            split: option.splits obj.splits if_splits)
    next
      case (EnemyO et)
      with Some assms have w1: "w1 = Enemy_die t w"
        by (simp add: target_takeDamage_def Enemy_takeDamage_def)
      show ?thesis
      proof (cases "t = self")
        case True
        with w1 Enemy_die_self(1) [OF assms(2)] show ?thesis by simp
      next
        case False
        with w1 Enemy_die_other [OF assms(2)] show ?thesis by simp
      qed
    next
      case (GroundO g)
      with Some assms show ?thesis by (simp add: target_takeDamage_def)
    next
      case (PlainO m)
      with Some assms show ?thesis by (simp add: target_takeDamage_def)
    qed
  qed
  show "attack_calls r w1 = attack_calls r w"
    using assms(1)
    by (auto simp: target_takeDamage_def Enemy_takeDamage_def
        Enemy_die_attack_calls [unfolded attack_calls_def]
        attack_calls_def split: option.splits obj.splits)
qed

lemma Enemy_attack_enemy:
  assumes "get_enemy w self = Some e"
  shows "\<exists>e1. get_enemy (Enemy_attack self w) self = Some e1"
    and "attack_calls r (Enemy_attack self w) = attack_calls r w"
proof -
  show "\<exists>e1. get_enemy (Enemy_attack self w) self = Some e1"
  proof (cases "target e")
    case None
    with assms show ?thesis by (simp add: Enemy_attack_def)
  next
    case (Some t)
    show ?thesis
    proof (cases "target_takeDamage t (damage e) w")
      case None
      with Some assms show ?thesis by (simp add: Enemy_attack_def)
    next
      case w1: (Some w1)
      from target_takeDamage_enemy(1) [OF w1 assms]
      obtain e1 where "get_enemy w1 self = Some e1" by blast
      with Some w1 assms show ?thesis
        by (simp add: Enemy_attack_def Let_def get_enemy_def)
    qed
  qed
  show "attack_calls r (Enemy_attack self w) = attack_calls r w"
  proof (cases "target e")
    case None
    with assms show ?thesis by (simp add: Enemy_attack_def)
  next
    case (Some t)
    show ?thesis
    proof (cases "target_takeDamage t (damage e) w")
      case None
      with Some assms show ?thesis by (simp add: Enemy_attack_def)
    next
      case w1: (Some w1)
      from target_takeDamage_enemy(1) [OF w1 assms] target_takeDamage_enemy(2) [OF w1 assms]
      obtain e1 where "get_enemy w1 self = Some e1" and "attack_calls r w1 = attack_calls r w"
        by blast
      with Some w1 assms show ?thesis
        by (simp add: Enemy_attack_def Let_def attack_calls_def)
    qed
  qed
qed


lemma chase_step_fields [simp]:
  "timeSinceAttack (chase_step d tp e) = timeSinceAttack e"
  "attackRange (chase_step d tp e) = attackRange e"
  "attackCooldown (chase_step d tp e) = attackCooldown e"
  "target (chase_step d tp e) = target e"
  by (simp_all add: chase_step_def Let_def)

lemma chase_step_timer [simp]:
  "e_position (chase_step d tp (e\<lparr>timeSinceAttack := x\<rparr>)) = e_position (chase_step d tp e)"
  by (simp add: chase_step_def Let_def)

lemma chase_step_self [simp]: "e_position (chase_step d (e_position e) e) = e_position e"
  by (simp add: chase_step_def Let_def subVectors_def vlength_def normalizeV_def
      divideScalar_def)

lemma Enemy_tryAttack_fires:
  assumes "get_enemy w self = Some e" and "target_position w e = Some tp"
    and "distanceTo (e_position e) tp \<le> attackRange e"
    and "attackCooldown e \<le> timeSinceAttack e"
  shows "attack_calls self (Enemy_tryAttack self w) = Suc (attack_calls self w)"
    and "\<exists>e'. get_enemy (Enemy_tryAttack self w) self = Some e' \<and> timeSinceAttack e' = 0"
proof -
  let ?w0 = "w\<lparr>history := history w @ [AttackCall self]\<rparr>"
  have g0: "get_enemy ?w0 self = Some e" using assms(1) by simp
  from Enemy_attack_enemy(1) [OF g0]
  obtain e1 where e1: "get_enemy (Enemy_attack self ?w0) self = Some e1" by blast
  have c: "attack_calls self (Enemy_attack self ?w0) = attack_calls self ?w0"
    by (rule Enemy_attack_enemy(2) [OF g0])
  have t: "Enemy_tryAttack self w
           = put_enemy self (e1\<lparr>timeSinceAttack := 0\<rparr>) (Enemy_attack self ?w0)"
    using assms e1 by (simp add: Enemy_tryAttack_def Let_def)
  show "attack_calls self (Enemy_tryAttack self w) = Suc (attack_calls self w)"
    using c by (simp add: t attack_calls_def)
  show "\<exists>e'. get_enemy (Enemy_tryAttack self w) self = Some e' \<and> timeSinceAttack e' = 0"
    by (simp add: t)
qed

lemma Enemy_tryAttack_idle:
  assumes "get_enemy w self = Some e" and "target_position w e = Some tp"
    and "\<not> (distanceTo (e_position e) tp \<le> attackRange e
            \<and> attackCooldown e \<le> timeSinceAttack e)"
  shows "Enemy_tryAttack self w = w"
  using assms by (auto simp: Enemy_tryAttack_def Let_def)

lemma target_position_put_self:
  assumes "get_enemy w self = Some e" and "target_position w e = Some tp"
    and "target e' = target e" and "e_position e' = e_position e"
  shows "target_position (put_enemy self e' w) e' = Some tp"
  using assms
  by (auto simp: target_position_def get_enemy_def split: option.splits obj.splits)

lemma demo_enemy_fields:
  "e_speed (demo_enemy t) = 2" "target (demo_enemy t) = Some t" "damage (demo_enemy t) = 10"
  "attackRange (demo_enemy t) = 2" "attackCooldown (demo_enemy t) = 1"
  "timeSinceAttack (demo_enemy t) = 0" "e_position (demo_enemy t) = vec 3 (1 / 2) 0"
  "alive (demo_enemy t)" "\<not> e_game (demo_enemy t)"
  by (simp_all add: demo_enemy_def Enemy_new_def no_enemy_options_def or_default_def
      setPosition_def)

lemma demo_world_enemy:
  "get_enemy (demo_world tobj) 2 = Some ((demo_enemy 3)\<lparr>e_game := True\<rparr>)"
  by (simp add: demo_world_def Game_add_def Game_new_def enemy_methods_def Enemy_init_def
      Let_def get_enemy_def put_enemy_def)

lemma demo_world_fields:
  "objs (demo_world tobj) 3 = Some tobj"
  "entities (demo_world tobj) = [2]"
  "history (demo_world tobj) = []"
  "timers (demo_world tobj) = []"
  by (simp_all add: demo_world_def Game_add_def Game_new_def enemy_methods_def Enemy_init_def
      Let_def get_enemy_def put_enemy_def)

lemma sqrt_9: "sqrt 9 = 3"
  by (rule real_sqrt_unique) simp_all

lemma demo_chase:
  "e_position (chase_step 1 (vec 0 1 0) ((demo_enemy 3)\<lparr>e_game := True\<rparr>)) = vec 1 (1 / 2) 0"
  by (simp add: chase_step_def Let_def demo_enemy_fields subVectors_def vlength_def vec_def
      normalizeV_def divideScalar_def sqrt_9)

lemma demo_distance: "distanceTo (vec 1 (1 / 2) 0) (vec 0 1 0) \<le> 2"
  by (simp add: distanceTo_def subVectors_def vlength_def vec_def real_le_lsqrt)

section \<open>Enemy: when the attack fires\<close>

text \<open>
  C5. In an update of a live enemy whose target has a position \<open>tp\<close>, \<^verbatim>\<open>attack\<close> is
  called (once) if and only if the distance from the enemy, where it stands after the
  chase step of this update, to the target is at most \<open>attackRange\<close> and the time since
  the last attack, this frame's \<open>delta\<close> included, is at least \<open>attackCooldown\<close>;
  otherwise it is not called. When it is called the timer reads zero after the update.
\<close>

theorem attack_fires_iff:
  assumes "get_enemy w self = Some e" and "alive e"
    and "target_position w e = Some tp"
  shows "(attack_calls self (Enemy_update delta now self w) = Suc (attack_calls self w)
          \<longleftrightarrow> distanceTo (e_position (chase_step delta tp e)) tp \<le> attackRange e
               \<and> attackCooldown e \<le> timeSinceAttack e + delta)
       \<and> (attack_calls self (Enemy_update delta now self w) = attack_calls self w
          \<longleftrightarrow> \<not> (distanceTo (e_position (chase_step delta tp e)) tp \<le> attackRange e
                  \<and> attackCooldown e \<le> timeSinceAttack e + delta))
       \<and> (attack_calls self (Enemy_update delta now self w) = Suc (attack_calls self w)
          \<longrightarrow> map_option timeSinceAttack (get_enemy (Enemy_update delta now self w) self)
               = Some 0)"
proof -
  define e1 where "e1 = e\<lparr>timeSinceAttack := timeSinceAttack e + delta\<rparr>"
  define w1 where "w1 = put_enemy self e1 w"
  define e2 where "e2 = chase_step delta tp e1"
  define w2 where "w2 = put_enemy self e2 w1"
  define w3 where "w3 = Enemy_tryAttack self w2"
  have g1: "get_enemy w1 self = Some e1" by (simp add: w1_def)
  have t1: "target_position w1 e1 = Some tp"
    unfolding w1_def
    by (rule target_position_put_self [OF assms(1) assms(3)]) (simp_all add: e1_def)
  have c: "Enemy_chaseTarget delta self w1 = w2"
    by (simp add: Enemy_chaseTarget_def g1 t1 w2_def e2_def)
  have g2: "get_enemy w2 self = Some e2" by (simp add: w2_def)
  have t2: "target_position w2 e2 = Some tp"
  proof (cases "target e = Some self")
    case True
    with assms(1,3) have "tp = e_position e"
      by (simp add: target_position_def get_enemy_def split: option.splits obj.splits)
    with True show ?thesis
      by (simp add: target_position_def w2_def w1_def e2_def e1_def)
  next
    case False
    with assms(3) show ?thesis
      by (auto simp: target_position_def w2_def w1_def e2_def e1_def split: option.splits)
  qed
  have p2: "e_position e2 = e_position (chase_step delta tp e)"
    by (simp add: e2_def e1_def)
  have f2: "attackRange e2 = attackRange e" "attackCooldown e2 = attackCooldown e"
    "timeSinceAttack e2 = timeSinceAttack e + delta"
    by (simp_all add: e2_def e1_def)
  have h2: "attack_calls self w2 = attack_calls self w"
    by (simp add: attack_calls_def w2_def w1_def)
  have u: "Enemy_update delta now self w =
           (case get_enemy w3 self of
              None \<Rightarrow> w3
            | Some e3 \<Rightarrow>
                put_enemy self
                  (e3\<lparr>e_position := (e_position e3)
                        \<lparr>vy := 1 / 2 + sin (now * (5 / 1000)) * (2 / 10)\<rparr>\<rparr>) w3)"
  proof -
    have tw: "Enemy_tryAttack self (Enemy_chaseTarget delta self
                (put_enemy self (e\<lparr>timeSinceAttack := timeSinceAttack e + delta\<rparr>) w)) = w3"
      using c by (simp add: w3_def w1_def e1_def)
    have tq: "target_position
                (put_enemy self (e\<lparr>timeSinceAttack := timeSinceAttack e + delta\<rparr>) w)
                (e\<lparr>timeSinceAttack := timeSinceAttack e + delta\<rparr>) = Some tp"
      using t1 by (simp add: w1_def e1_def)
    show ?thesis
      using assms(1,2) by (simp add: Enemy_update_def Let_def tq, unfold tw, simp)
  qed
  show ?thesis
  proof (cases "distanceTo (e_position (chase_step delta tp e)) tp \<le> attackRange e
               \<and> attackCooldown e \<le> timeSinceAttack e + delta")
    case True
    then have d: "distanceTo (e_position e2) tp \<le> attackRange e2"
      and k: "attackCooldown e2 \<le> timeSinceAttack e2"
      by (simp_all add: p2 f2)
    from Enemy_tryAttack_fires [OF g2 t2 d k]
    obtain e3 where a3: "attack_calls self w3 = Suc (attack_calls self w2)"
      and g3: "get_enemy w3 self = Some e3" and z3: "timeSinceAttack e3 = 0"
      unfolding w3_def by blast
    from True a3 g3 z3 h2 show ?thesis
      by (simp add: u attack_calls_def)
  next
    case False
    then have "\<not> (distanceTo (e_position e2) tp \<le> attackRange e2
                 \<and> attackCooldown e2 \<le> timeSinceAttack e2)"
      by (simp add: p2 f2)
    from Enemy_tryAttack_idle [OF g2 t2 this] have "w3 = w2" by (simp add: w3_def)
    with False g2 h2 show ?thesis
      by (simp add: u attack_calls_def)
  qed
qed


theorem attack_fires_iff_witness:
  "get_enemy (demo_world (PlayerO demo_player)) 2 = Some ((demo_enemy 3)\<lparr>e_game := True\<rparr>)
   \<and> alive ((demo_enemy 3)\<lparr>e_game := True\<rparr>)
   \<and> target_position (demo_world (PlayerO demo_player)) ((demo_enemy 3)\<lparr>e_game := True\<rparr>)
       = Some (vec 0 1 0)
   \<and> attack_calls 2 (Enemy_update 1 0 2 (demo_world (PlayerO demo_player)))
       = Suc (attack_calls 2 (demo_world (PlayerO demo_player)))
   \<and> map_option timeSinceAttack
        (get_enemy (Enemy_update 1 0 2 (demo_world (PlayerO demo_player))) 2) = Some 0"
proof -
  have h1: "get_enemy (demo_world (PlayerO demo_player)) 2
            = Some ((demo_enemy 3)\<lparr>e_game := True\<rparr>)"
    by (rule demo_world_enemy)
  have h2: "alive ((demo_enemy 3)\<lparr>e_game := True\<rparr>)"
    by (simp add: demo_enemy_fields)
  have h3: "target_position (demo_world (PlayerO demo_player))
              ((demo_enemy 3)\<lparr>e_game := True\<rparr>) = Some (vec 0 1 0)"
    by (simp add: target_position_def demo_enemy_fields demo_world_fields demo_player_def
        Player_init_def)
  have c: "distanceTo (e_position (chase_step 1 (vec 0 1 0) ((demo_enemy 3)\<lparr>e_game := True\<rparr>)))
             (vec 0 1 0) \<le> attackRange ((demo_enemy 3)\<lparr>e_game := True\<rparr>)
           \<and> attackCooldown ((demo_enemy 3)\<lparr>e_game := True\<rparr>)
             \<le> timeSinceAttack ((demo_enemy 3)\<lparr>e_game := True\<rparr>) + 1"
    by (simp add: demo_chase demo_distance demo_enemy_fields)
  from attack_fires_iff [OF h1 h2 h3, of 1 0] c h1 h2 h3 show ?thesis
    by simp
qed

lemma target_takeDamage_None:
  assumes "objs w t = Some tobj" and "\<not> has_takeDamage tobj"
  shows "target_takeDamage t a w = None"
  using assms by (cases tobj) (simp_all add: target_takeDamage_def)

text \<open>
  C10. When the target has a position but no \<^verbatim>\<open>takeDamage\<close> method, an attack in range
  with the cooldown elapsed calls \<^verbatim>\<open>attack\<close> and resets the timer to zero; nothing else
  of the enemy changes (its colour stays), no colour revert is scheduled, and the target
  is left as it was.
\<close>

theorem attack_without_takeDamage:
  assumes "get_enemy w self = Some e" and "target e = Some t" and "objs w t = Some tobj"
    and "mesh_position tobj = Some tp" and "\<not> has_takeDamage tobj"
    and "distanceTo (e_position e) tp \<le> attackRange e"
    and "attackCooldown e \<le> timeSinceAttack e"
  shows "attack_calls self (Enemy_tryAttack self w) = Suc (attack_calls self w)
       \<and> get_enemy (Enemy_tryAttack self w) self = Some (e\<lparr>timeSinceAttack := 0\<rparr>)
       \<and> objs (Enemy_tryAttack self w) t = Some tobj
       \<and> timers (Enemy_tryAttack self w) = timers w"
proof -
  let ?w0 = "w\<lparr>history := history w @ [AttackCall self]\<rparr>"
  have tp: "target_position w e = Some tp"
    using assms(2,3,4) by (simp add: target_position_def)
  have "target_takeDamage t (damage e) ?w0 = None"
    using assms(3,5) by (simp add: target_takeDamage_None)
  then have a: "Enemy_attack self ?w0 = ?w0"
    using assms(1,2) by (simp add: Enemy_attack_def)
  have eq: "Enemy_tryAttack self w = put_enemy self (e\<lparr>timeSinceAttack := 0\<rparr>) ?w0"
    using assms(1,6,7) tp by (simp add: Enemy_tryAttack_def Let_def a)
  have ne: "t \<noteq> self"
    using assms(1,3,5) by (auto simp: get_enemy_objs)
  show ?thesis
    using assms(3) ne by (simp add: eq attack_calls_def)
qed

theorem attack_without_takeDamage_witness:
  "get_enemy (demo_world (GroundO (Ground_new no_ground_options))) 2
     = Some ((demo_enemy 3)\<lparr>e_game := True\<rparr>)
   \<and> \<not> has_takeDamage (GroundO (Ground_new no_ground_options))
   \<and> get_enemy
       (Enemy_tryAttack 2
          (put_enemy 2 ((demo_enemy 3)\<lparr>e_game := True, timeSinceAttack := 1,
                          e_position := vec 1 (1 / 2) 0\<rparr>)
             (demo_world (GroundO (Ground_new no_ground_options))))) 2
     = Some ((demo_enemy 3)\<lparr>e_game := True, timeSinceAttack := 0,
               e_position := vec 1 (1 / 2) 0\<rparr>)
   \<and> objs
       (Enemy_tryAttack 2
          (put_enemy 2 ((demo_enemy 3)\<lparr>e_game := True, timeSinceAttack := 1,
                          e_position := vec 1 (1 / 2) 0\<rparr>)
             (demo_world (GroundO (Ground_new no_ground_options))))) 3
     = Some (GroundO (Ground_new no_ground_options))"
proof -
  let ?g = "GroundO (Ground_new no_ground_options)"
  let ?e = "(demo_enemy 3)\<lparr>e_game := True, timeSinceAttack := 1, e_position := vec 1 (1 / 2) 0\<rparr>"
  let ?w = "put_enemy 2 ?e (demo_world ?g)"
  have h1: "get_enemy ?w 2 = Some ?e" by simp
  have h2: "target ?e = Some 3" by (simp add: demo_enemy_fields)
  have h3: "objs ?w 3 = Some ?g" by (simp add: demo_world_fields)
  have h4: "mesh_position ?g = Some (vec 0 0 0)" by simp
  have h5: "\<not> has_takeDamage ?g" by simp
  have h6: "distanceTo (e_position ?e) (vec 0 0 0) \<le> attackRange ?e"
    by (simp add: distanceTo_def subVectors_def vlength_def vec_def real_le_lsqrt
        demo_enemy_fields)
  have h7: "attackCooldown ?e \<le> timeSinceAttack ?e" by (simp add: demo_enemy_fields)
  from attack_without_takeDamage [OF h1 h2 h3 h4 h5 h6 h7] h5 demo_world_enemy [of ?g]
  show ?thesis by simp
qed


section \<open>Enemy: damage and removal requests\<close>

lemma remove_calls_Enemy_die:
  assumes "get_enemy w self = Some e"
  shows "remove_calls self (Enemy_die self w) = remove_calls self w + (if e_game e then 1 else 0)"
  by (simp add: remove_calls_def Enemy_die_self(2) [OF assms])

lemma entities_Enemy_die:
  assumes "get_enemy w self = Some e"
  shows "entities (Enemy_die self w)
         = (if e_game e then remove1 self (entities w) else entities w)"
proof -
  have "entities (case target e of
                    None \<Rightarrow> put_enemy self (e\<lparr>alive := False\<rparr>) w
                  | Some t \<Rightarrow>
                      (case objs (put_enemy self (e\<lparr>alive := False\<rparr>) w) t of
                         Some (PlayerO p) \<Rightarrow>
                           (put_enemy self (e\<lparr>alive := False\<rparr>) w)
                             \<lparr>objs := (objs (put_enemy self (e\<lparr>alive := False\<rparr>) w))
                                        (t \<mapsto> PlayerO (addScore 10 p))\<rparr>
                       | _ \<Rightarrow> put_enemy self (e\<lparr>alive := False\<rparr>) w)) = entities w"
    by (simp split: option.splits obj.splits)
  with assms show ?thesis
    by (simp add: Enemy_die_def Let_def entities_Game_remove)
qed

lemma takeDamage_calls_effect:
  assumes "get_enemy w self = Some e"
  shows "get_enemy (takeDamage_calls amounts self w) self
           = Some (if amounts = [] then e else e\<lparr>alive := False\<rparr>)
       \<and> remove_calls self (takeDamage_calls amounts self w)
           = remove_calls self w + (if e_game e then length amounts else 0)
       \<and> (distinct (entities w) \<longrightarrow>
            entities (takeDamage_calls amounts self w)
            = (if e_game e \<and> amounts \<noteq> [] then remove1 self (entities w) else entities w))"
  using assms unfolding takeDamage_calls_def
proof (induction amounts arbitrary: w e)
  case Nil
  then show ?case by simp
next
  case (Cons a amounts)
  let ?w1 = "Enemy_die self w"
  have g1: "get_enemy ?w1 self = Some (e\<lparr>alive := False\<rparr>)"
    by (rule Enemy_die_self(1) [OF Cons.prems])
  have r1: "remove_calls self ?w1 = remove_calls self w + (if e_game e then 1 else 0)"
    by (rule remove_calls_Enemy_die [OF Cons.prems])
  have n1: "entities ?w1 = (if e_game e then remove1 self (entities w) else entities w)"
    by (rule entities_Enemy_die [OF Cons.prems])
  have d1: "distinct (entities w) \<Longrightarrow> distinct (entities ?w1)"
    by (simp add: n1)
  have i1: "distinct (entities w) \<Longrightarrow> e_game e \<Longrightarrow>
            remove1 self (entities ?w1) = entities ?w1"
    by (simp add: n1 remove1_idem)
  from Cons.IH [OF g1] r1 n1 d1 i1 show ?case
    by (auto simp: Enemy_takeDamage_def)
qed

text \<open>
  C6 as stated fails: \<^verbatim>\<open>takeDamage\<close> calls \<^verbatim>\<open>die\<close> every time, and \<^verbatim>\<open>die\<close> asks the
  driver for the removal every time, so two calls issue two removal requests.
\<close>

theorem takeDamage_twice_counterexample:
  "get_enemy (demo_world (PlayerO demo_player)) 2 = Some ((demo_enemy 3)\<lparr>e_game := True\<rparr>)
   \<and> remove_calls 2 (demo_world (PlayerO demo_player)) = 0
   \<and> remove_calls 2 (takeDamage_calls [5, 5] 2 (demo_world (PlayerO demo_player))) = 2
   \<and> remove_calls 2 (takeDamage_calls [5, 5] 2 (demo_world (PlayerO demo_player))) \<noteq> 1"
  using takeDamage_calls_effect [OF demo_world_enemy [of "PlayerO demo_player"], where amounts = "[5, 5]"]
  by (simp add: demo_world_enemy remove_calls_def demo_world_fields)

text \<open>
  C6, amended. For every enemy and every amount, each call of \<^verbatim>\<open>takeDamage\<close> leaves the
  alive flag false, so the flag goes from true to false on the first call and never
  again, and issues one removal request to the driver when the enemy has been initialised
  with one, none otherwise: \<open>k\<close> calls issue \<open>k\<close> requests. When the collection has no
  duplicates, the first request removes the enemy and the later ones leave the
  collection as it is.
\<close>

theorem takeDamage_calls_requests:
  assumes "get_enemy w self = Some e"
  shows "get_enemy (takeDamage_calls amounts self w) self
           = Some (if amounts = [] then e else e\<lparr>alive := False\<rparr>)
       \<and> remove_calls self (takeDamage_calls amounts self w)
           = remove_calls self w + (if e_game e then length amounts else 0)
       \<and> (distinct (entities w) \<longrightarrow>
            entities (takeDamage_calls amounts self w)
            = (if e_game e \<and> amounts \<noteq> [] then remove1 self (entities w) else entities w))"
  by (rule takeDamage_calls_effect [OF assms])

theorem takeDamage_calls_requests_witness:
  "get_enemy (demo_world (PlayerO demo_player)) 2 = Some ((demo_enemy 3)\<lparr>e_game := True\<rparr>)
   \<and> distinct (entities (demo_world (PlayerO demo_player)))
   \<and> get_enemy (takeDamage_calls [5, 7] 2 (demo_world (PlayerO demo_player))) 2
       = Some ((demo_enemy 3)\<lparr>e_game := True, alive := False\<rparr>)
   \<and> remove_calls 2 (takeDamage_calls [5, 7] 2 (demo_world (PlayerO demo_player))) = 2
   \<and> entities (takeDamage_calls [5, 7] 2 (demo_world (PlayerO demo_player))) = []"
  using takeDamage_calls_requests [OF demo_world_enemy [of "PlayerO demo_player"], where amounts = "[5, 7]"]
  by (simp add: demo_world_enemy remove_calls_def demo_world_fields)


end
